theory Spec2Isabelle
  imports Main
begin

section \<open>JavaScript values\<close>

text \<open>
  The services are TypeScript classes; what they compute on is JavaScript values.

  A \<open>number\<close> is a double. The safe integers, those of magnitude below \<open>2^53\<close>, are
  numbers one by one, and the type \<open>safe_integer\<close> holds exactly them (\<open>-0\<close> is read as
  \<open>0\<close>: the two print alike and are both falsy). Every other finite number, a fraction
  or a number of magnitude \<open>2^53\<close> and more, is of the type \<open>double\<close>, of which nothing
  is assumed. An array is the list of its elements, an object the list of its own data
  properties.
\<close>

typedef safe_integer = "{n :: int. - (2 ^ 53) < n \<and> n < 2 ^ 53}"
  by (rule exI [of _ 0]) simp

typedecl double

datatype number = NaN | PosInfinity | NegInfinity | Integer safe_integer | Other double

text \<open>
  What \<open>Number::toString\<close> prints for the numbers of type \<open>double\<close> (\<open>1.5\<close>, \<open>1e+21\<close>,
  \<open>9223372036854776000\<close>) is the runtime's: the operations that print a number take it
  as a parameter.
\<close>

type_synonym runtime = "double \<Rightarrow> string"

datatype jsval =
    Undefined
  | Null
  | Bool bool
  | Num number
  | Str string
  | Arr "jsval list"
  | Obj "(string \<times> jsval) list"

text \<open>The runtime exception of a property read on \<open>null\<close> or \<open>undefined\<close>.\<close>

datatype exn = TypeError

text \<open>
  A parameter of a declared type \<open>'a\<close> that the caller may leave out (\<open>Undef\<close>, which is
  also what an explicit \<open>undefined\<close> is) or pass as \<open>null\<close>.
\<close>

datatype 'a opt = Undef | Nul | Given 'a

text \<open>A default parameter value \<open>p = d\<close> replaces \<open>undefined\<close> only.\<close>

definition default_param :: "'a opt \<Rightarrow> 'a opt \<Rightarrow> 'a opt" where
  "default_param d x = (case x of Undef \<Rightarrow> d | _ \<Rightarrow> x)"

definition default_options :: "jsval \<Rightarrow> jsval \<Rightarrow> jsval" where
  "default_options d x = (case x of Undefined \<Rightarrow> d | _ \<Rightarrow> x)"

text \<open>\<open>v != null\<close> is false on \<open>null\<close> and on \<open>undefined\<close>, true on every other value.\<close>

fun not_null :: "jsval \<Rightarrow> bool" where
  "not_null Undefined = False"
| "not_null Null = False"
| "not_null _ = True"

text \<open>ToBoolean, which decides \<open>a || b\<close>.\<close>

fun truthy :: "jsval \<Rightarrow> bool" where
  "truthy Undefined = False"
| "truthy Null = False"
| "truthy (Bool b) = b"
| "truthy (Num NaN) = False"
| "truthy (Num (Integer n)) = (Rep_safe_integer n \<noteq> 0)"
| "truthy (Num _) = True"
| "truthy (Str s) = (s \<noteq> [])"
| "truthy (Arr _) = True"
| "truthy (Obj _) = True"

definition js_or :: "jsval \<Rightarrow> jsval \<Rightarrow> jsval" where
  "js_or a b = (if truthy a then a else b)"

text \<open>
  The property read \<open>v[k]\<close> for a key that no built-in prototype defines (\<open>'id'\<close>,
  \<open>'message'\<close>): the own property of an object, \<open>undefined\<close> on an object without it and
  on a primitive, a TypeError on \<open>null\<close> and \<open>undefined\<close>.
\<close>

fun get_prop :: "jsval \<Rightarrow> string \<Rightarrow> exn + jsval" where
  "get_prop Undefined k = Inl TypeError"
| "get_prop Null k = Inl TypeError"
| "get_prop (Obj ps) k = (case map_of ps k of None \<Rightarrow> Inr Undefined | Some v \<Rightarrow> Inr v)"
| "get_prop _ k = Inr Undefined"

subsection \<open>String conversion\<close>

definition digit_char :: "nat \<Rightarrow> char" where
  "digit_char d = ''0123456789'' ! (d mod 10)"

fun dec_nat :: "nat \<Rightarrow> string" where
  "dec_nat n = (if n < 10 then [digit_char n] else dec_nat (n div 10) @ [digit_char n])"

declare dec_nat.simps [simp del]

definition dec_int :: "int \<Rightarrow> string" where
  "dec_int n = (if n < 0 then ''-'' @ dec_nat (nat (- n)) else dec_nat (nat n))"

text \<open>
  \<open>Number::toString\<close>: a safe integer prints as its decimal digits, with no exponent;
  the other finite numbers print as the runtime prints them.
\<close>

fun number_to_string :: "runtime \<Rightarrow> number \<Rightarrow> string" where
  "number_to_string rt NaN = ''NaN''"
| "number_to_string rt PosInfinity = ''Infinity''"
| "number_to_string rt NegInfinity = ''-Infinity''"
| "number_to_string rt (Integer n) = dec_int (Rep_safe_integer n)"
| "number_to_string rt (Other d) = rt d"

fun join_comma :: "string list \<Rightarrow> string" where
  "join_comma [] = []"
| "join_comma [s] = s"
| "join_comma (s # ss) = s @ '','' @ join_comma ss"


fun to_string :: "runtime \<Rightarrow> jsval \<Rightarrow> string" where
  "to_string rt Undefined = ''undefined''"
| "to_string rt Null = ''null''"
| "to_string rt (Bool b) = (if b then ''true'' else ''false'')"
| "to_string rt (Num n) = number_to_string rt n"
| "to_string rt (Str s) = s"
| "to_string rt (Arr vs) =
     join_comma (map (\<lambda>v. if not_null v then to_string rt v else []) vs)"
| "to_string rt (Obj ps) = ''[object Object]''"

section \<open>The transport and its observables\<close>

datatype verb = GET | POST | PUT | DELETE

record request =
  verb :: verb
  url :: string
  body :: "jsval option"
  options :: jsval

type_synonym history = "request list"

text \<open>What the transport answers to one request: a response value or an error value.\<close>

datatype answer = Success jsval | Failure jsval

text \<open>
  The injected \<open>HttpClient\<close>, known by its answers only. An answer may depend on the
  requests made before (the server has a state of its own).
\<close>

record http_client =
  respond :: "history \<Rightarrow> request \<Rightarrow> answer"

text \<open>
  An observable, subscribed once after the requests \<open>h\<close>: the requests that the
  subscription makes, in order, and its single notification.
\<close>

datatype notification = Next jsval | Error jsval | Raised exn

type_synonym 'n producer = "history \<Rightarrow> 'n \<times> request list"

type_synonym source = "answer producer"

type_synonym observable = "notification producer"

definition http_request :: "http_client \<Rightarrow> request \<Rightarrow> source" where
  "http_request c r = (\<lambda>h. (respond c h r, [r]))"

definition http_get :: "http_client \<Rightarrow> string \<Rightarrow> jsval \<Rightarrow> source" where
  "http_get c path opts = http_request c \<lparr>verb = GET, url = path, body = None, options = opts\<rparr>"

definition http_post :: "http_client \<Rightarrow> string \<Rightarrow> jsval \<Rightarrow> jsval \<Rightarrow> source" where
  "http_post c path b opts =
     http_request c \<lparr>verb = POST, url = path, body = Some b, options = opts\<rparr>"

definition http_put :: "http_client \<Rightarrow> string \<Rightarrow> jsval \<Rightarrow> jsval \<Rightarrow> source" where
  "http_put c path b opts =
     http_request c \<lparr>verb = PUT, url = path, body = Some b, options = opts\<rparr>"

definition http_delete :: "http_client \<Rightarrow> string \<Rightarrow> jsval \<Rightarrow> source" where
  "http_delete c path opts =
     http_request c \<lparr>verb = DELETE, url = path, body = None, options = opts\<rparr>"

text \<open>The rxjs creation function and the two operators the services pipe through.\<close>

definition throwError :: "jsval \<Rightarrow> observable" where
  "throwError e = (\<lambda>h. (Error e, []))"

definition map_op :: "(jsval \<Rightarrow> jsval) \<Rightarrow> source \<Rightarrow> source" where
  "map_op f src =
     (\<lambda>h. case src h of
             (Success v, rs) \<Rightarrow> (Success (f v), rs)
           | (Failure e, rs) \<Rightarrow> (Failure e, rs))"

text \<open>
  \<open>catchError\<close> passes a value through; on an error it calls the selector and subscribes
  to the observable it returns, and a selector that throws turns into an error
  notification carrying what it threw.
\<close>

definition catchError :: "(jsval \<Rightarrow> exn + observable) \<Rightarrow> source \<Rightarrow> observable" where
  "catchError selector src =
     (\<lambda>h. case src h of
             (Success v, rs) \<Rightarrow> (Next v, rs)
           | (Failure e, rs) \<Rightarrow>
               (case selector e of
                  Inl x \<Rightarrow> (Raised x, rs)
                | Inr ob \<Rightarrow> (case ob (h @ rs) of (n, rs') \<Rightarrow> (n, rs @ rs'))))"

section \<open>BaseService\<close>

text \<open>
  An instance is the record of its fields and of the methods a subclass may override;
  \<open>RestService\<close> extends \<open>BaseService\<close>, as the record \<open>rest_service\<close> extends
  \<open>base_service\<close>. A call \<open>this.handleError\<close> reads the method of the instance.
\<close>

record base_service =
  http :: http_client
  handleError :: "jsval \<Rightarrow> exn + observable"

text \<open>\<open>handleError(error) { return throwError(error.message || error); }\<close>\<close>

definition BaseService_handleError :: "jsval \<Rightarrow> exn + observable" where
  "BaseService_handleError error =
     (case get_prop error ''message'' of
        Inl x \<Rightarrow> Inl x
      | Inr message \<Rightarrow> Inr (throwError (js_or message error)))"

definition get :: "'a base_service_scheme \<Rightarrow> string \<Rightarrow> jsval \<Rightarrow> observable" where
  "get this path opts =
     (let opts = default_options (Obj []) opts
      in catchError (handleError this)
           (map_op (\<lambda>response. response) (http_get (http this) path opts)))"

definition post :: "'a base_service_scheme \<Rightarrow> string \<Rightarrow> jsval \<Rightarrow> jsval \<Rightarrow> observable" where
  "post this path b opts =
     (let opts = default_options (Obj []) opts
      in catchError (handleError this)
           (map_op (\<lambda>response. response) (http_post (http this) path b opts)))"

definition put :: "'a base_service_scheme \<Rightarrow> string \<Rightarrow> jsval \<Rightarrow> jsval \<Rightarrow> observable" where
  "put this path b opts =
     (let opts = default_options (Obj []) opts
      in catchError (handleError this)
           (map_op (\<lambda>response. response) (http_put (http this) path b opts)))"

definition delete :: "'a base_service_scheme \<Rightarrow> string \<Rightarrow> jsval \<Rightarrow> observable" where
  "delete this path opts =
     (let opts = default_options (Obj []) opts
      in catchError (handleError this)
           (map_op (\<lambda>response. response) (http_delete (http this) path opts)))"

section \<open>RestService\<close>

record rest_service = base_service +
  headers :: jsval
  getBaseUrlPath :: string

text \<open>
  The constructor, for a concrete subclass whose \<open>getBaseUrlPath()\<close> returns \<open>base\<close> and
  which overrides nothing else; the field initialiser sets \<open>headers\<close>.
\<close>

definition RestService :: "http_client \<Rightarrow> string \<Rightarrow> rest_service" where
  "RestService c base =
     \<lparr>http = c, handleError = BaseService_handleError,
      headers = Obj [(''Content-Type'', Str ''application/json'')],
      getBaseUrlPath = base\<rparr>"

definition query :: "'a rest_service_scheme \<Rightarrow> jsval \<Rightarrow> string opt \<Rightarrow> observable" where
  "query this opts path =
     (let opts = default_options (Obj []) opts;
          path = default_param Nul path;
          finalPath = (case path of Given p \<Rightarrow> p | _ \<Rightarrow> getBaseUrlPath this)
      in catchError (handleError this)
           (map_op (\<lambda>response. response) (http_get (http this) finalPath opts)))"

definition getAll :: "'a rest_service_scheme \<Rightarrow> string opt \<Rightarrow> observable" where
  "getAll this path = (let path = default_param Nul path in query this (Obj []) path)"

definition getOne ::
  "runtime \<Rightarrow> 'a rest_service_scheme \<Rightarrow> number opt \<Rightarrow> jsval \<Rightarrow> string opt \<Rightarrow>
   observable" where
  "getOne rt this ident opts path =
     (let opts = default_options (Obj []) opts;
          path = default_param Nul path;
          finalPath = (case path of Given p \<Rightarrow> p | _ \<Rightarrow> getBaseUrlPath this);
          u = finalPath @ (case ident of Given n \<Rightarrow> ''/'' @ number_to_string rt n | _ \<Rightarrow> [])
      in catchError (handleError this)
           (map_op (\<lambda>response. response) (http_get (http this) u opts)))"

definition createOne ::
  "'a rest_service_scheme \<Rightarrow> jsval \<Rightarrow> jsval \<Rightarrow> string opt \<Rightarrow> observable" where
  "createOne this model opts path =
     (let opts = default_options (Obj [(''headers'', headers this)]) opts;
          path = default_param Nul path;
          finalPath = (case path of Given p \<Rightarrow> p | _ \<Rightarrow> getBaseUrlPath this)
      in catchError (handleError this)
           (map_op (\<lambda>response. response) (http_post (http this) finalPath model opts)))"

text \<open>
  \<open>updateOne\<close> reads \<open>model['id']\<close> before it builds the request: on a model that is
  \<open>null\<close> or \<open>undefined\<close> the read throws and no observable is returned.
\<close>

definition updateOne ::
  "runtime \<Rightarrow> 'a rest_service_scheme \<Rightarrow> jsval \<Rightarrow> jsval \<Rightarrow> string opt \<Rightarrow>
   exn + observable" where
  "updateOne rt this model opts path =
     (let opts = default_options (Obj [(''headers'', headers this)]) opts;
          path = default_param Nul path;
          finalPath = (case path of Given p \<Rightarrow> p | _ \<Rightarrow> getBaseUrlPath this)
      in case get_prop model ''id'' of
           Inl x \<Rightarrow> Inl x
         | Inr i \<Rightarrow>
             (let u = finalPath @ (if not_null i then ''/'' @ to_string rt i else [])
              in Inr (catchError (handleError this)
                        (map_op (\<lambda>response. response) (http_put (http this) u model opts)))))"

definition deleteOne ::
  "runtime \<Rightarrow> 'a rest_service_scheme \<Rightarrow> number opt \<Rightarrow> jsval \<Rightarrow> string opt \<Rightarrow>
   observable" where
  "deleteOne rt this ident opts path =
     (let opts = default_options (Obj [(''headers'', headers this)]) opts;
          path = default_param Nul path;
          finalPath = (case path of Given p \<Rightarrow> p | _ \<Rightarrow> getBaseUrlPath this);
          u = finalPath @ (case ident of Given n \<Rightarrow> ''/'' @ number_to_string rt n | _ \<Rightarrow> [])
      in catchError (handleError this)
           (map_op (\<lambda>response. response) (http_delete (http this) u opts)))"

section \<open>Calling a service\<close>

text \<open>
  What a caller sees of an observable it subscribes to after the requests \<open>h\<close>: the
  notification, and the requests made, of which the first is the operation's own.
\<close>

definition notified :: "observable \<Rightarrow> history \<Rightarrow> notification" where
  "notified ob h = fst (ob h)"

definition requests :: "observable \<Rightarrow> history \<Rightarrow> request list" where
  "requests ob h = snd (ob h)"

definition first_request :: "observable \<Rightarrow> history \<Rightarrow> request option" where
  "first_request ob h = (case snd (ob h) of [] \<Rightarrow> None | r # _ \<Rightarrow> Some r)"

text \<open>What the caller sees of the hook's result when the hook is called after \<open>h\<close>.\<close>

definition hook_notified :: "exn + observable \<Rightarrow> history \<Rightarrow> notification" where
  "hook_notified res h = (case res of Inl x \<Rightarrow> Raised x | Inr ob \<Rightarrow> fst (ob h))"

text \<open>The ten public operations, as one call on an instance.\<close>

datatype call =
    Get string jsval
  | Post string jsval jsval
  | Put string jsval jsval
  | Delete string jsval
  | Query jsval "string opt"
  | GetAll "string opt"
  | GetOne "number opt" jsval "string opt"
  | CreateOne jsval jsval "string opt"
  | UpdateOne jsval jsval "string opt"
  | DeleteOne "number opt" jsval "string opt"

fun invoke :: "runtime \<Rightarrow> 'a rest_service_scheme \<Rightarrow> call \<Rightarrow> exn + observable" where
  "invoke rt this (Get path opts) = Inr (get this path opts)"
| "invoke rt this (Post path b opts) = Inr (post this path b opts)"
| "invoke rt this (Put path b opts) = Inr (put this path b opts)"
| "invoke rt this (Delete path opts) = Inr (delete this path opts)"
| "invoke rt this (Query opts path) = Inr (query this opts path)"
| "invoke rt this (GetAll path) = Inr (getAll this path)"
| "invoke rt this (GetOne ident opts path) = Inr (getOne rt this ident opts path)"
| "invoke rt this (CreateOne model opts path) = Inr (createOne this model opts path)"
| "invoke rt this (UpdateOne model opts path) = updateOne rt this model opts path"
| "invoke rt this (DeleteOne ident opts path) = Inr (deleteOne rt this ident opts path)"



section \<open>The instance and its headers object in a store\<close>

text \<open>
  The instance keeps its default headers in an object, and an operation that defaults
  its options puts that object itself into the options it hands to the transport. To
  say what a call can change, this second reading of the two classes keeps the objects
  in a store: a method returns, with its result, the instance it leaves behind, and the
  transport answers with the store it leaves behind. Paths, URLs, bodies and
  notifications are those of the first reading (lemma \<open>readings_agree\<close>).
\<close>

type_synonym addr = nat


text \<open>
  An options argument as the transport gets it: a value of the caller or the literal
  \<open>{}\<close> (plain values), or the literal \<open>{headers: this.headers}\<close>, which holds the
  object at an address and no copy of it.
\<close>

datatype passed = Plain jsval | Headers_literal addr

record shared_request =
  verb_s :: verb
  url_s :: string
  body_s :: "jsval option"
  options_s :: passed

text \<open>The objects, by address, and the requests sent so far.\<close>

record machine =
  store :: "addr \<Rightarrow> jsval"
  sent :: "shared_request list"

text \<open>
  The transport answers a request and leaves a store behind: it may write to the objects
  it is handed.
\<close>

record shared_client =
  reply :: "machine \<Rightarrow> shared_request \<Rightarrow> answer \<times> (addr \<Rightarrow> jsval)"

type_synonym 'n action = "machine \<Rightarrow> 'n \<times> machine"

definition request_s :: "shared_client \<Rightarrow> shared_request \<Rightarrow> answer action" where
  "request_s c r =
     (\<lambda>m. case reply c m r of (a, st) \<Rightarrow> (a, \<lparr>store = st, sent = sent m @ [r]\<rparr>))"

definition http_get_s :: "shared_client \<Rightarrow> string \<Rightarrow> passed \<Rightarrow> answer action" where
  "http_get_s c path opts =
     request_s c \<lparr>verb_s = GET, url_s = path, body_s = None, options_s = opts\<rparr>"

definition http_post_s :: "shared_client \<Rightarrow> string \<Rightarrow> jsval \<Rightarrow> passed \<Rightarrow> answer action" where
  "http_post_s c path b opts =
     request_s c \<lparr>verb_s = POST, url_s = path, body_s = Some b, options_s = opts\<rparr>"

definition http_put_s :: "shared_client \<Rightarrow> string \<Rightarrow> jsval \<Rightarrow> passed \<Rightarrow> answer action" where
  "http_put_s c path b opts =
     request_s c \<lparr>verb_s = PUT, url_s = path, body_s = Some b, options_s = opts\<rparr>"

definition http_delete_s :: "shared_client \<Rightarrow> string \<Rightarrow> passed \<Rightarrow> answer action" where
  "http_delete_s c path opts =
     request_s c \<lparr>verb_s = DELETE, url_s = path, body_s = None, options_s = opts\<rparr>"

definition throwError_s :: "jsval \<Rightarrow> notification action" where
  "throwError_s e = (\<lambda>m. (Error e, m))"

definition map_op_s :: "(jsval \<Rightarrow> jsval) \<Rightarrow> answer action \<Rightarrow> answer action" where
  "map_op_s f src =
     (\<lambda>m. case src m of
             (Success v, m') \<Rightarrow> (Success (f v), m')
           | (Failure e, m') \<Rightarrow> (Failure e, m'))"

definition catchError_s ::
  "(jsval \<Rightarrow> exn + notification action) \<Rightarrow> answer action \<Rightarrow> notification action" where
  "catchError_s selector src =
     (\<lambda>m. case src m of
             (Success v, m') \<Rightarrow> (Next v, m')
           | (Failure e, m') \<Rightarrow>
               (case selector e of Inl x \<Rightarrow> (Raised x, m') | Inr ob \<Rightarrow> ob m'))"

definition default_passed :: "passed \<Rightarrow> jsval \<Rightarrow> passed" where
  "default_passed d x = (case x of Undefined \<Rightarrow> d | _ \<Rightarrow> Plain x)"

text \<open>The instance: its two fields, and the methods a subclass supplies or overrides.\<close>

record shared_service =
  http_s :: shared_client
  headers_s :: addr
  handleError_s :: "jsval \<Rightarrow> exn + notification action"
  getBaseUrlPath_s :: string

text \<open>
  What a method call gives: the observable it returns or the exception it throws, and
  the instance as the call leaves it.
\<close>

type_synonym returned = "(exn + notification action) \<times> shared_service"

definition BaseService_handleError_s :: "jsval \<Rightarrow> exn + notification action" where
  "BaseService_handleError_s error =
     (case get_prop error ''message'' of
        Inl x \<Rightarrow> Inl x
      | Inr message \<Rightarrow> Inr (throwError_s (js_or message error)))"

text \<open>The constructor makes the headers object, at the address \<open>a\<close>.\<close>

definition RestService_s ::
  "shared_client \<Rightarrow> string \<Rightarrow> addr \<Rightarrow> machine \<Rightarrow> shared_service \<times> machine" where
  "RestService_s c base a m =
     (\<lparr>http_s = c, headers_s = a, handleError_s = BaseService_handleError_s,
       getBaseUrlPath_s = base\<rparr>,
      m\<lparr>store := (store m)(a := Obj [(''Content-Type'', Str ''application/json'')])\<rparr>)"

definition get_s :: "shared_service \<Rightarrow> string \<Rightarrow> jsval \<Rightarrow> returned" where
  "get_s this path opts =
     (let opts = default_passed (Plain (Obj [])) opts
      in (Inr (catchError_s (handleError_s this)
                 (map_op_s (\<lambda>response. response) (http_get_s (http_s this) path opts))),
          this))"

definition post_s :: "shared_service \<Rightarrow> string \<Rightarrow> jsval \<Rightarrow> jsval \<Rightarrow> returned" where
  "post_s this path b opts =
     (let opts = default_passed (Plain (Obj [])) opts
      in (Inr (catchError_s (handleError_s this)
                 (map_op_s (\<lambda>response. response) (http_post_s (http_s this) path b opts))),
          this))"

definition put_s :: "shared_service \<Rightarrow> string \<Rightarrow> jsval \<Rightarrow> jsval \<Rightarrow> returned" where
  "put_s this path b opts =
     (let opts = default_passed (Plain (Obj [])) opts
      in (Inr (catchError_s (handleError_s this)
                 (map_op_s (\<lambda>response. response) (http_put_s (http_s this) path b opts))),
          this))"

definition delete_s :: "shared_service \<Rightarrow> string \<Rightarrow> jsval \<Rightarrow> returned" where
  "delete_s this path opts =
     (let opts = default_passed (Plain (Obj [])) opts
      in (Inr (catchError_s (handleError_s this)
                 (map_op_s (\<lambda>response. response) (http_delete_s (http_s this) path opts))),
          this))"

definition query_s :: "shared_service \<Rightarrow> jsval \<Rightarrow> string opt \<Rightarrow> returned" where
  "query_s this opts path =
     (let opts = default_passed (Plain (Obj [])) opts;
          path = default_param Nul path;
          finalPath = (case path of Given p \<Rightarrow> p | _ \<Rightarrow> getBaseUrlPath_s this)
      in (Inr (catchError_s (handleError_s this)
                 (map_op_s (\<lambda>response. response) (http_get_s (http_s this) finalPath opts))),
          this))"

definition getAll_s :: "shared_service \<Rightarrow> string opt \<Rightarrow> returned" where
  "getAll_s this path = (let path = default_param Nul path in query_s this (Obj []) path)"

definition getOne_s ::
  "runtime \<Rightarrow> shared_service \<Rightarrow> number opt \<Rightarrow> jsval \<Rightarrow> string opt \<Rightarrow> returned" where
  "getOne_s rt this ident opts path =
     (let opts = default_passed (Plain (Obj [])) opts;
          path = default_param Nul path;
          finalPath = (case path of Given p \<Rightarrow> p | _ \<Rightarrow> getBaseUrlPath_s this);
          u = finalPath @ (case ident of Given n \<Rightarrow> ''/'' @ number_to_string rt n | _ \<Rightarrow> [])
      in (Inr (catchError_s (handleError_s this)
                 (map_op_s (\<lambda>response. response) (http_get_s (http_s this) u opts))),
          this))"

definition createOne_s :: "shared_service \<Rightarrow> jsval \<Rightarrow> jsval \<Rightarrow> string opt \<Rightarrow> returned" where
  "createOne_s this model opts path =
     (let opts = default_passed (Headers_literal (headers_s this)) opts;
          path = default_param Nul path;
          finalPath = (case path of Given p \<Rightarrow> p | _ \<Rightarrow> getBaseUrlPath_s this)
      in (Inr (catchError_s (handleError_s this)
                 (map_op_s (\<lambda>response. response)
                    (http_post_s (http_s this) finalPath model opts))),
          this))"

definition updateOne_s ::
  "runtime \<Rightarrow> shared_service \<Rightarrow> jsval \<Rightarrow> jsval \<Rightarrow> string opt \<Rightarrow> returned" where
  "updateOne_s rt this model opts path =
     (let opts = default_passed (Headers_literal (headers_s this)) opts;
          path = default_param Nul path;
          finalPath = (case path of Given p \<Rightarrow> p | _ \<Rightarrow> getBaseUrlPath_s this)
      in case get_prop model ''id'' of
           Inl x \<Rightarrow> (Inl x, this)
         | Inr i \<Rightarrow>
             (let u = finalPath @ (if not_null i then ''/'' @ to_string rt i else [])
              in (Inr (catchError_s (handleError_s this)
                         (map_op_s (\<lambda>response. response)
                            (http_put_s (http_s this) u model opts))),
                  this)))"

definition deleteOne_s ::
  "runtime \<Rightarrow> shared_service \<Rightarrow> number opt \<Rightarrow> jsval \<Rightarrow> string opt \<Rightarrow> returned" where
  "deleteOne_s rt this ident opts path =
     (let opts = default_passed (Headers_literal (headers_s this)) opts;
          path = default_param Nul path;
          finalPath = (case path of Given p \<Rightarrow> p | _ \<Rightarrow> getBaseUrlPath_s this);
          u = finalPath @ (case ident of Given n \<Rightarrow> ''/'' @ number_to_string rt n | _ \<Rightarrow> [])
      in (Inr (catchError_s (handleError_s this)
                 (map_op_s (\<lambda>response. response) (http_delete_s (http_s this) u opts))),
          this))"

fun invoke_s :: "runtime \<Rightarrow> shared_service \<Rightarrow> call \<Rightarrow> returned" where
  "invoke_s rt this (Get path opts) = get_s this path opts"
| "invoke_s rt this (Post path b opts) = post_s this path b opts"
| "invoke_s rt this (Put path b opts) = put_s this path b opts"
| "invoke_s rt this (Delete path opts) = delete_s this path opts"
| "invoke_s rt this (Query opts path) = query_s this opts path"
| "invoke_s rt this (GetAll path) = getAll_s this path"
| "invoke_s rt this (GetOne ident opts path) = getOne_s rt this ident opts path"
| "invoke_s rt this (CreateOne model opts path) = createOne_s this model opts path"
| "invoke_s rt this (UpdateOne model opts path) = updateOne_s rt this model opts path"
| "invoke_s rt this (DeleteOne ident opts path) = deleteOne_s rt this ident opts path"

text \<open>
  What the transport finds in the options when it looks into them in the store \<open>st\<close>,
  and the request of the first reading that it sees then.
\<close>

definition found :: "(addr \<Rightarrow> jsval) \<Rightarrow> passed \<Rightarrow> jsval" where
  "found st p = (case p of Plain v \<Rightarrow> v | Headers_literal a \<Rightarrow> Obj [(''headers'', st a)])"

definition seen :: "(addr \<Rightarrow> jsval) \<Rightarrow> shared_request \<Rightarrow> request" where
  "seen st r =
     \<lparr>verb = verb_s r, url = url_s r, body = body_s r, options = found st (options_s r)\<rparr>"



section \<open>The specification's rules\<close>

text \<open>
  The URL construction rule as the specification words it:
  \<open>effectivePath = explicitPath ?? basePath()\<close>.
\<close>

definition spec_effectivePath :: "string opt \<Rightarrow> string \<Rightarrow> string" where
  "spec_effectivePath explicitPath basePath =
     (case explicitPath of Given p \<Rightarrow> p | _ \<Rightarrow> basePath)"

text \<open>
  The failure value as the specification words it: the error's message if the error has
  a message field, and otherwise the raw error.
\<close>

definition spec_failure_value :: "jsval \<Rightarrow> jsval" where
  "spec_failure_value e =
     (case e of
        Obj ps \<Rightarrow> (case map_of ps ''message'' of Some m \<Rightarrow> m | None \<Rightarrow> e)
      | _ \<Rightarrow> e)"

section \<open>Example instances\<close>

text \<open>
  The \<open>ArticleService\<close> of the README, whose \<open>getBaseUrlPath()\<close> returns
  \<open>'api/articles'\<close>, on a transport that gives every request the same answer. No example
  prints a number of type \<open>double\<close>, so the runtime of the examples is any one.
\<close>

definition example_runtime :: runtime where
  "example_runtime d = []"

definition constant_client :: "answer \<Rightarrow> http_client" where
  "constant_client a = \<lparr>respond = (\<lambda>h r. a)\<rparr>"

definition article_service :: "http_client \<Rightarrow> rest_service" where
  "article_service c = RestService c ''api/articles''"





definition new_machine :: machine where
  "new_machine = \<lparr>store = (\<lambda>a. Undefined), sent = []\<rparr>"

definition article_shared :: "shared_client \<Rightarrow> shared_service \<times> machine" where
  "article_shared c = RestService_s c ''api/articles'' 0 new_machine"

section \<open>How an operation unfolds\<close>

lemma safe_integer_rep:
  "- (2 ^ 53) < n \<Longrightarrow> n < 2 ^ 53 \<Longrightarrow> Rep_safe_integer (Abs_safe_integer n) = n"
  by (simp add: Abs_safe_integer_inverse)


lemma map_op_ident: "map_op (\<lambda>response. response) src = src"
  by (rule ext) (simp add: map_op_def split: prod.split answer.split)

lemma catchError_request:
  "catchError sel (http_request c r) h =
     (case respond c h r of
        Success v \<Rightarrow> (Next v, [r])
      | Failure e \<Rightarrow>
          (case sel e of
             Inl x \<Rightarrow> (Raised x, [r])
           | Inr ob \<Rightarrow> (fst (ob (h @ [r])), r # snd (ob (h @ [r])))))"
  by (simp add: catchError_def http_request_def split: answer.split sum.split prod.split)

lemma first_request_catchError: "first_request (catchError sel (http_request c r)) h = Some r"
  by (simp add: first_request_def catchError_request split: answer.split sum.split)

lemma final_path:
  "(case default_param Nul path of Given p \<Rightarrow> p | _ \<Rightarrow> b) = spec_effectivePath path b"
  by (cases path) (simp_all add: default_param_def spec_effectivePath_def)

lemma query_unfold:
  "query this opts path =
     catchError (handleError this)
       (http_request (http this)
          \<lparr>verb = GET, url = spec_effectivePath path (getBaseUrlPath this), body = None,
           options = default_options (Obj []) opts\<rparr>)"
  by (simp add: query_def Let_def map_op_ident http_get_def final_path)

lemma getAll_unfold:
  "getAll this path =
     catchError (handleError this)
       (http_request (http this)
          \<lparr>verb = GET, url = spec_effectivePath path (getBaseUrlPath this), body = None,
           options = Obj []\<rparr>)"
  by (cases path) (simp_all add: getAll_def query_unfold Let_def default_param_def default_options_def spec_effectivePath_def)

lemma getOne_unfold:
  "getOne rt this ident opts path =
     catchError (handleError this)
       (http_request (http this)
          \<lparr>verb = GET,
           url = spec_effectivePath path (getBaseUrlPath this)
                 @ (case ident of Given n \<Rightarrow> ''/'' @ number_to_string rt n | _ \<Rightarrow> []),
           body = None, options = default_options (Obj []) opts\<rparr>)"
  by (simp add: getOne_def Let_def map_op_ident http_get_def final_path)

lemma createOne_unfold:
  "createOne this model opts path =
     catchError (handleError this)
       (http_request (http this)
          \<lparr>verb = POST, url = spec_effectivePath path (getBaseUrlPath this), body = Some model,
           options = default_options (Obj [(''headers'', headers this)]) opts\<rparr>)"
  by (simp add: createOne_def Let_def map_op_ident http_post_def final_path)

lemma updateOne_unfold:
  "get_prop model ''id'' = Inr i \<Longrightarrow>
   updateOne rt this model opts path =
     Inr (catchError (handleError this)
       (http_request (http this)
          \<lparr>verb = PUT,
           url = spec_effectivePath path (getBaseUrlPath this)
                 @ (if not_null i then ''/'' @ to_string rt i else []),
           body = Some model,
           options = default_options (Obj [(''headers'', headers this)]) opts\<rparr>))"
  by (simp add: updateOne_def Let_def map_op_ident http_put_def final_path)

lemma deleteOne_unfold:
  "deleteOne rt this ident opts path =
     catchError (handleError this)
       (http_request (http this)
          \<lparr>verb = DELETE,
           url = spec_effectivePath path (getBaseUrlPath this)
                 @ (case ident of Given n \<Rightarrow> ''/'' @ number_to_string rt n | _ \<Rightarrow> []),
           body = None, options = default_options (Obj [(''headers'', headers this)]) opts\<rparr>)"
  by (simp add: deleteOne_def Let_def map_op_ident http_delete_def final_path)

lemma get_prop_total: "not_null m \<Longrightarrow> \<exists>i. get_prop m k = Inr i"
  by (cases m) (simp_all split: option.split)






lemma notified_failure:
  "respond c h r = Failure e \<Longrightarrow>
   notified (catchError sel (http_request c r)) h = hook_notified (sel e) (h @ [r])"
  by (simp add: notified_def hook_notified_def catchError_request split: sum.split)

lemma notified_success:
  "respond c h r = Success v \<Longrightarrow> notified (catchError sel (http_request c r)) h = Next v"
  by (simp add: notified_def catchError_request)

lemma article_service_simps [simp]:
  "http (article_service c) = c"
  "handleError (article_service c) = BaseService_handleError"
  "headers (article_service c) = Obj [(''Content-Type'', Str ''application/json'')]"
  "getBaseUrlPath (article_service c) = ''api/articles''"
  by (simp_all add: article_service_def RestService_def)

lemma respond_constant_client [simp]: "respond (constant_client a) h r = a"
  by (simp add: constant_client_def)

lemma requests_catchError:
  "requests (catchError sel (http_request c r)) h =
     r # (case respond c h r of
            Success v \<Rightarrow> []
          | Failure e \<Rightarrow> (case sel e of Inl x \<Rightarrow> [] | Inr ob \<Rightarrow> requests ob (h @ [r])))"
  by (simp add: requests_def catchError_request split: answer.split sum.split)

lemma BaseService_handleError_value:
  "get_prop e ''message'' = Inr m \<Longrightarrow>
   BaseService_handleError e = Inr (throwError (if truthy m then m else e))"
  by (simp add: BaseService_handleError_def js_or_def)

lemma BaseService_handleError_requests:
  "BaseService_handleError e = Inr ob \<Longrightarrow> requests ob h = []"
  by (auto simp: BaseService_handleError_def requests_def throwError_def split: sum.splits)


lemma notified_catchError:
  "notified (catchError sel (http_request c r)) h =
     (case respond c h r of
        Success v \<Rightarrow> Next v
      | Failure e \<Rightarrow> hook_notified (sel e) (h @ [r]))"
  by (simp add: notified_success notified_failure split: answer.split)

subsection \<open>In the store\<close>

lemma map_op_s_ident: "map_op_s (\<lambda>response. response) src = src"
  by (rule ext) (simp add: map_op_s_def split: prod.split answer.split)





lemma article_shared_simps [simp]:
  "http_s (fst (article_shared c)) = c"
  "headers_s (fst (article_shared c)) = 0"
  "handleError_s (fst (article_shared c)) = BaseService_handleError_s"
  "getBaseUrlPath_s (fst (article_shared c)) = ''api/articles''"
  "store (snd (article_shared c)) 0 = Obj [(''Content-Type'', Str ''application/json'')]"
  "sent (snd (article_shared c)) = []"
  by (simp_all add: article_shared_def RestService_s_def new_machine_def)


lemma readings_agree:
  fixes this :: "'a rest_service_scheme"
  assumes "case c of UpdateOne m _ _ \<Rightarrow> not_null m | _ \<Rightarrow> True"
    and "getBaseUrlPath_s shared = getBaseUrlPath this"
    and "st (headers_s shared) = headers this"
  shows "\<exists>r. fst (invoke_s rt shared c) =
               Inr (catchError_s (handleError_s shared) (request_s (http_s shared) r)) \<and>
             invoke rt this c =
               Inr (catchError (handleError this) (http_request (http this) (seen st r)))"
proof (cases c)
  case (UpdateOne m opts path)
  with assms obtain i where i: "get_prop m ''id'' = Inr i"
    using get_prop_total by fastforce
  show ?thesis
    by (cases opts; simp add: assms(2,3) UpdateOne i updateOne_s_def updateOne_unfold Let_def
        map_op_s_ident http_put_s_def default_passed_def default_options_def final_path;
        (intro conjI impI)?; rule exI; rule conjI; (rule refl)?; simp add: seen_def found_def assms(2,3))
next
  case (CreateOne m opts path)
  show ?thesis
    by (cases opts; simp add: assms(2,3) CreateOne createOne_s_def createOne_unfold Let_def
        map_op_s_ident http_post_s_def default_passed_def default_options_def final_path;
        (intro conjI impI)?; rule exI; rule conjI; (rule refl)?; simp add: seen_def found_def assms(2,3))
next
  case (DeleteOne ident opts path)
  show ?thesis
    by (cases opts; simp add: assms(2,3) DeleteOne deleteOne_s_def deleteOne_unfold Let_def
        map_op_s_ident http_delete_s_def default_passed_def default_options_def final_path;
        (intro conjI impI)?; rule exI; rule conjI; (rule refl)?; simp add: seen_def found_def assms(2,3))
next
  case (Get path opts)
  show ?thesis
    by (cases opts; simp add: assms(2,3) Get get_s_def get_def Let_def map_op_s_ident map_op_ident
        http_get_s_def http_get_def default_passed_def default_options_def;
        (intro conjI impI)?; rule exI; rule conjI; (rule refl)?; simp add: seen_def found_def assms(2,3))
next
  case (Post path b opts)
  show ?thesis
    by (cases opts; simp add: assms(2,3) Post post_s_def post_def Let_def map_op_s_ident map_op_ident
        http_post_s_def http_post_def default_passed_def default_options_def;
        (intro conjI impI)?; rule exI; rule conjI; (rule refl)?; simp add: seen_def found_def assms(2,3))
next
  case (Put path b opts)
  show ?thesis
    by (cases opts; simp add: assms(2,3) Put put_s_def put_def Let_def map_op_s_ident map_op_ident
        http_put_s_def http_put_def default_passed_def default_options_def;
        (intro conjI impI)?; rule exI; rule conjI; (rule refl)?; simp add: seen_def found_def assms(2,3))
next
  case (Delete path opts)
  show ?thesis
    by (cases opts; simp add: assms(2,3) Delete delete_s_def delete_def Let_def map_op_s_ident
        map_op_ident http_delete_s_def http_delete_def default_passed_def
        default_options_def;
        (intro conjI impI)?; rule exI; rule conjI; (rule refl)?; simp add: seen_def found_def assms(2,3))
next
  case (Query opts path)
  show ?thesis
    by (cases opts; simp add: assms(2,3) Query query_s_def query_unfold Let_def map_op_s_ident
        http_get_s_def default_passed_def default_options_def final_path;
        (intro conjI impI)?; rule exI; rule conjI; (rule refl)?; simp add: seen_def found_def assms(2,3))
next
  case (GetAll path)
  show ?thesis
    by (cases path; simp add: assms(2,3) GetAll getAll_s_def query_s_def getAll_unfold Let_def
        map_op_s_ident http_get_s_def default_passed_def default_param_def
        spec_effectivePath_def;
        (intro conjI impI)?; rule exI; rule conjI; (rule refl)?; simp add: seen_def found_def assms(2,3))
next
  case (GetOne ident opts path)
  show ?thesis
    by (cases opts; simp add: assms(2,3) GetOne getOne_s_def getOne_unfold Let_def map_op_s_ident
        http_get_s_def default_passed_def default_options_def final_path;
        (intro conjI impI)?; rule exI; rule conjI; (rule refl)?; simp add: seen_def found_def assms(2,3))
qed

section \<open>The claims\<close>



text \<open>
  C2. For every id \<open>n\<close> that is defined (not null), \<open>getOne\<close> issues a GET and
  \<open>deleteOne\<close> a DELETE to the effective path followed by \<open>'/'\<close> and the id, printed as
  the operator \<open>+\<close> prints a number; when the id is null or undefined, both issue their
  request to the effective path alone, and do not fail.
\<close>

theorem getOne_deleteOne_url:
  fixes this :: "'a rest_service_scheme"
  shows "first_request (getOne rt this (Given n) opts path) h =
           Some \<lparr>verb = GET,
                 url = spec_effectivePath path (getBaseUrlPath this) @ ''/'' @
                       number_to_string rt n,
                 body = None, options = default_options (Obj []) opts\<rparr> \<and>
         first_request (deleteOne rt this (Given n) opts path) h =
           Some \<lparr>verb = DELETE,
                 url = spec_effectivePath path (getBaseUrlPath this) @ ''/'' @
                       number_to_string rt n,
                 body = None,
                 options = default_options (Obj [(''headers'', headers this)]) opts\<rparr> \<and>
         (ident = Undef \<or> ident = Nul \<longrightarrow>
            first_request (getOne rt this ident opts path) h =
              Some \<lparr>verb = GET, url = spec_effectivePath path (getBaseUrlPath this),
                    body = None, options = default_options (Obj []) opts\<rparr> \<and>
            first_request (deleteOne rt this ident opts path) h =
              Some \<lparr>verb = DELETE, url = spec_effectivePath path (getBaseUrlPath this),
                    body = None,
                    options = default_options (Obj [(''headers'', headers this)]) opts\<rparr>)"
  by (auto simp: getOne_unfold deleteOne_unfold first_request_catchError)

text \<open>
  \<open>deleteOne(3)\<close> goes to \<open>api/articles/3\<close>, \<open>getOne(-120)\<close> to \<open>api/articles/-120\<close>,
  \<open>getOne(NaN)\<close> to \<open>api/articles/NaN\<close> and \<open>getOne(undefined)\<close> to \<open>api/articles\<close>.
\<close>

theorem getOne_deleteOne_url_witness:
  "map_option url (first_request
      (deleteOne example_runtime (article_service (constant_client (Success Null)))
         (Given (Integer (Abs_safe_integer 3))) Undefined Undef) []) =
     Some ''api/articles/3'' \<and>
   map_option url (first_request
      (getOne example_runtime (article_service (constant_client (Success Null)))
         (Given (Integer (Abs_safe_integer (- 120)))) Undefined Undef) []) =
     Some ''api/articles/-120'' \<and>
   map_option url (first_request
      (getOne example_runtime (article_service (constant_client (Success Null)))
         (Given NaN) Undefined Undef) []) = Some ''api/articles/NaN'' \<and>
   map_option url (first_request
      (getOne example_runtime (article_service (constant_client (Success Null)))
         Undef Undefined Undef) []) = Some ''api/articles''"
  using getOne_deleteOne_url [where this = "article_service (constant_client (Success Null))"
      and n = "Integer (Abs_safe_integer 3)" and opts = Undefined and path = Undef
      and h = "[]" and ident = Undef and rt = example_runtime]
    getOne_deleteOne_url [where this = "article_service (constant_client (Success Null))"
      and n = "Integer (Abs_safe_integer (- 120))" and opts = Undefined and path = Undef
      and h = "[]" and rt = example_runtime]
    getOne_deleteOne_url [where this = "article_service (constant_client (Success Null))"
      and n = NaN and opts = Undefined and path = Undef and h = "[]"
      and rt = example_runtime]
  by (simp add: spec_effectivePath_def safe_integer_rep dec_int_def dec_nat.simps
      digit_char_def)



text \<open>
  C4, as the specification states it, fails: the failure value would be the error's
  message whenever the error has a message field. The handler tests \<open>error.message\<close> for
  truth, so an error whose message is the empty string (an \<open>Error\<close> made without a
  message) is passed on whole.
\<close>

theorem handleError_message_counterexample:
  "spec_failure_value (Obj [(''message'', Str [])]) = Str [] \<and>
   hook_notified (BaseService_handleError (Obj [(''message'', Str [])])) [] =
     Error (Obj [(''message'', Str [])]) \<and>
   hook_notified (BaseService_handleError (Obj [(''message'', Str [])])) [] \<noteq>
     Error (spec_failure_value (Obj [(''message'', Str [])]))"
  by (simp add: spec_failure_value_def hook_notified_def BaseService_handleError_def js_or_def
      throwError_def)

text \<open>
  C4, amended. For every error value \<open>e\<close> delivered by the transport, the default
  \<open>handleError\<close> produces a failing result: never a value, and no further request (no
  recovery, no retry), so the operation made one request and fails. For every \<open>e\<close> other
  than null and undefined the failure value is \<open>e.message\<close> if \<open>e.message\<close> is truthy,
  and otherwise the raw error value \<open>e\<close> itself.
\<close>

theorem handleError_default:
  "(\<forall>v. hook_notified (BaseService_handleError e) h \<noteq> Next v) \<and>
   (\<forall>ob. BaseService_handleError e = Inr ob \<longrightarrow> requests ob h = []) \<and>
   (not_null e \<longrightarrow>
      (\<exists>m. get_prop e ''message'' = Inr m \<and>
           hook_notified (BaseService_handleError e) h = Error (if truthy m then m else e))) \<and>
   (respond c h r = Failure e \<longrightarrow>
      notified (catchError BaseService_handleError (http_request c r)) h =
        hook_notified (BaseService_handleError e) (h @ [r]) \<and>
      requests (catchError BaseService_handleError (http_request c r)) h = [r])"
proof -
  have no_next: "\<forall>v. hook_notified (BaseService_handleError e) h \<noteq> Next v"
    by (simp add: hook_notified_def BaseService_handleError_def throwError_def
        split: sum.split)
  have quiet: "\<forall>ob. BaseService_handleError e = Inr ob \<longrightarrow> requests ob h = []" for h
    using BaseService_handleError_requests by blast
  have val: "not_null e \<longrightarrow>
      (\<exists>m. get_prop e ''message'' = Inr m \<and>
           hook_notified (BaseService_handleError e) h = Error (if truthy m then m else e))"
  proof
    assume "not_null e"
    then obtain m where m: "get_prop e ''message'' = Inr m"
      using get_prop_total by blast
    then have "hook_notified (BaseService_handleError e) h = Error (if truthy m then m else e)"
      by (simp add: BaseService_handleError_value hook_notified_def throwError_def)
    with m show "\<exists>m. get_prop e ''message'' = Inr m \<and>
           hook_notified (BaseService_handleError e) h = Error (if truthy m then m else e)"
      by blast
  qed
  have piped: "respond c h r = Failure e \<longrightarrow>
      notified (catchError BaseService_handleError (http_request c r)) h =
        hook_notified (BaseService_handleError e) (h @ [r]) \<and>
      requests (catchError BaseService_handleError (http_request c r)) h = [r]"
    using quiet [of "h @ [r]"]
    by (auto simp: notified_failure requests_catchError split: sum.split)
  from no_next quiet val piped show ?thesis
    by blast
qed

text \<open>
  A 404 error object fails with its message, an error that is a plain string with
  itself, and the operation that met the 404 has made its one request.
\<close>

theorem handleError_default_witness:
  "not_null (Obj [(''status'', Num (Integer (Abs_safe_integer 404))), (''message'', Str ''Not Found'')]) \<and>
   hook_notified
     (BaseService_handleError (Obj [(''status'', Num (Integer (Abs_safe_integer 404))), (''message'', Str ''Not Found'')]))
     [] = Error (Str ''Not Found'') \<and>
   hook_notified (BaseService_handleError (Str ''offline'')) [] = Error (Str ''offline'') \<and>
   notified
     (catchError BaseService_handleError
        (http_request
           (constant_client
              (Failure (Obj [(''status'', Num (Integer (Abs_safe_integer 404))), (''message'', Str ''Not Found'')])))
           \<lparr>verb = GET, url = ''api/articles'', body = None, options = Obj []\<rparr>)) [] =
     Error (Str ''Not Found'') \<and>
   requests
     (catchError BaseService_handleError
        (http_request
           (constant_client
              (Failure (Obj [(''status'', Num (Integer (Abs_safe_integer 404))), (''message'', Str ''Not Found'')])))
           \<lparr>verb = GET, url = ''api/articles'', body = None, options = Obj []\<rparr>)) [] =
     [\<lparr>verb = GET, url = ''api/articles'', body = None, options = Obj []\<rparr>]"
  using handleError_default [where e = "Obj [(''status'', Num (Integer (Abs_safe_integer 404))), (''message'', Str ''Not Found'')]"
      and h = "[]"
      and c = "constant_client
              (Failure (Obj [(''status'', Num (Integer (Abs_safe_integer 404))), (''message'', Str ''Not Found'')]))"
      and r = "\<lparr>verb = GET, url = ''api/articles'', body = None, options = Obj []\<rparr>"]
    handleError_default [where e = "Str ''offline''" and h = "[]"]
  by (simp add: hook_notified_def BaseService_handleError_def js_or_def throwError_def)



text \<open>
  C6. For every optional path, \<open>getAll(path)\<close> is \<open>query({}, path)\<close>, the same observable:
  its request \<open>r\<close> is a GET to the effective path with empty options and no body, and it
  is the only request made, whenever the transport succeeds and whenever the
  \<open>handleError\<close> hook makes no request of its own (the default one makes none).
\<close>

theorem getAll_is_query:
  fixes this :: "'a rest_service_scheme"
  assumes "r = \<lparr>verb = GET, url = spec_effectivePath path (getBaseUrlPath this), body = None,
                options = Obj []\<rparr>"
  shows "getAll this path = query this (Obj []) path \<and>
         first_request (getAll this path) h = Some r \<and>
         (\<forall>v. respond (http this) h r = Success v \<longrightarrow> requests (getAll this path) h = [r]) \<and>
         ((\<forall>e ob. handleError this e = Inr ob \<longrightarrow> requests ob (h @ [r]) = []) \<longrightarrow>
            requests (getAll this path) h = [r])"
proof -
  have "getAll this path = query this (Obj []) path"
    by (simp add: getAll_unfold query_unfold default_options_def)
  moreover have "first_request (getAll this path) h = Some r"
    by (simp add: getAll_unfold first_request_catchError assms)
  moreover have "\<forall>v. respond (http this) h r = Success v \<longrightarrow> requests (getAll this path) h = [r]"
    by (simp add: getAll_unfold requests_catchError assms)
  moreover have "(\<forall>e ob. handleError this e = Inr ob \<longrightarrow> requests ob (h @ [r]) = []) \<longrightarrow>
            requests (getAll this path) h = [r]"
    by (auto simp: getAll_unfold requests_catchError assms split: answer.split sum.split)
  ultimately show ?thesis
    by blast
qed

text \<open>On a transport that is offline, \<open>getAll()\<close> has made exactly its one GET.\<close>

theorem getAll_is_query_witness:
  "getAll (article_service (constant_client (Failure (Str ''offline'')))) Undef =
     query (article_service (constant_client (Failure (Str ''offline'')))) (Obj []) Undef \<and>
   requests (getAll (article_service (constant_client (Failure (Str ''offline'')))) Undef) [] =
     [\<lparr>verb = GET, url = ''api/articles'', body = None, options = Obj []\<rparr>]"
proof -
  have r: "\<lparr>verb = GET, url = ''api/articles'', body = None, options = Obj []\<rparr> =
      \<lparr>verb = GET,
       url = spec_effectivePath Undef
               (getBaseUrlPath (article_service (constant_client (Failure (Str ''offline''))))),
       body = None, options = Obj []\<rparr>"
    by (simp add: spec_effectivePath_def)
  note fact = getAll_is_query [OF r, where h = "[]"]
  have quiet: "\<forall>e ob. handleError (article_service (constant_client (Failure (Str ''offline'')))) e =
      Inr ob \<longrightarrow>
      requests ob ([] @ [\<lparr>verb = GET, url = ''api/articles'', body = None, options = Obj []\<rparr>]) = []"
    by (simp add: BaseService_handleError_requests)
  from fact quiet show ?thesis
    by blast
qed






text \<open>
  C9. When the transport answers the request of a base-wrapper verb with the value \<open>v\<close>,
  the verb has made that one request and emits exactly \<open>v\<close>: the success mapping is
  the identity on every source.
\<close>

theorem success_passes_through:
  fixes this :: "'a base_service_scheme"
  shows "(respond (http this) h
            \<lparr>verb = GET, url = path, body = None, options = default_options (Obj []) opts\<rparr> =
            Success v \<longrightarrow>
          get this path opts h =
            (Next v,
             [\<lparr>verb = GET, url = path, body = None, options = default_options (Obj []) opts\<rparr>])) \<and>
         (respond (http this) h
            \<lparr>verb = POST, url = path, body = Some b, options = default_options (Obj []) opts\<rparr> =
            Success v \<longrightarrow>
          post this path b opts h =
            (Next v,
             [\<lparr>verb = POST, url = path, body = Some b,
               options = default_options (Obj []) opts\<rparr>])) \<and>
         (respond (http this) h
            \<lparr>verb = PUT, url = path, body = Some b, options = default_options (Obj []) opts\<rparr> =
            Success v \<longrightarrow>
          put this path b opts h =
            (Next v,
             [\<lparr>verb = PUT, url = path, body = Some b,
               options = default_options (Obj []) opts\<rparr>])) \<and>
         (respond (http this) h
            \<lparr>verb = DELETE, url = path, body = None, options = default_options (Obj []) opts\<rparr> =
            Success v \<longrightarrow>
          delete this path opts h =
            (Next v,
             [\<lparr>verb = DELETE, url = path, body = None,
               options = default_options (Obj []) opts\<rparr>])) \<and>
         map_op (\<lambda>response. response) src = src"
  by (simp add: get_def post_def put_def delete_def Let_def map_op_ident http_get_def
      http_post_def http_put_def http_delete_def catchError_request)

text \<open>Each of the four verbs, answered with \<open>'done'\<close>, emits \<open>'done'\<close> after its one request.\<close>

theorem success_passes_through_witness:
  "get (article_service (constant_client (Success (Str ''done'')))) ''api/check'' Undefined [] =
     (Next (Str ''done''),
      [\<lparr>verb = GET, url = ''api/check'', body = None, options = Obj []\<rparr>]) \<and>
   post (article_service (constant_client (Success (Str ''done'')))) ''api/check''
       (Str ''secret'') Undefined [] =
     (Next (Str ''done''),
      [\<lparr>verb = POST, url = ''api/check'', body = Some (Str ''secret''), options = Obj []\<rparr>]) \<and>
   put (article_service (constant_client (Success (Str ''done'')))) ''api/check''
       (Str ''secret'') Undefined [] =
     (Next (Str ''done''),
      [\<lparr>verb = PUT, url = ''api/check'', body = Some (Str ''secret''), options = Obj []\<rparr>]) \<and>
   delete (article_service (constant_client (Success (Str ''done'')))) ''api/check''
       Undefined [] =
     (Next (Str ''done''),
      [\<lparr>verb = DELETE, url = ''api/check'', body = None, options = Obj []\<rparr>])"
  using success_passes_through [where this = "article_service (constant_client (Success (Str ''done'')))"
      and h = "[]" and v = "Str ''done''" and path = "''api/check''" and b = "Str ''secret''"
      and opts = Undefined]
  by (simp add: default_options_def)



end
